theory Spec2Isabelle
  imports Main
begin

section \<open>Legacy path sanitisation\<close>

text \<open>
  \<^verbatim>\<open>sanitizeLegacyNumericSuffixFilepath\<close> (cmd.go) compiles the regular expression
  \<^verbatim>\<open>\A.*[/\\]%s-\d*/\<close> with the exercise slug substituted for \<^verbatim>\<open>%s\<close>, deletes its
  match from the file name, rewrites every backslash to a slash and hands the result to
  \<^verbatim>\<open>filepath.FromSlash\<close>. The same three steps are written inline in
  \<^verbatim>\<open>writeSolutionFilesFromPayload\<close>.

  The expression only uses single characters, character classes and greedy stars of
  character classes, so it is modelled as a list of such items. Strings are byte lists;
  every item of the pattern after the leading \<^verbatim>\<open>.*\<close> is ASCII, so matching bytes and
  matching runes agree. The slug is taken literally: this is the pattern Go compiles
  whenever the slug has no character with a meaning in regular expression syntax.
\<close>

datatype cls =
    Lit char      \<comment> \<open>a literal character\<close>
  | AnyChar       \<comment> \<open>\<^verbatim>\<open>.\<close>: any character except newline\<close>
  | PathSep       \<comment> \<open>\<^verbatim>\<open>[/\\]\<close>\<close>
  | Digit         \<comment> \<open>\<^verbatim>\<open>\d\<close>: an ASCII digit\<close>

datatype item = One cls | Star cls

definition backslash :: char where
  "backslash = CHR 0x5C"

definition newline :: char where
  "newline = CHR 0x0A"

fun cls_match :: "cls \<Rightarrow> char \<Rightarrow> bool" where
  "cls_match (Lit a) c = (c = a)"
| "cls_match AnyChar c = (c \<noteq> newline)"
| "cls_match PathSep c = (c = CHR ''/'' \<or> c = backslash)"
| "cls_match Digit c = (c \<in> set ''0123456789'')"

text \<open>
  \<open>rx_match p s\<close> matches the pattern \<open>p\<close> at the start of \<open>s\<close> (the anchor \<^verbatim>\<open>\A\<close>) and
  returns what follows the match. Go's matcher prefers, at a greedy star, to take one more
  character and falls back to leaving the star only if the rest fails; the function tries
  the two alternatives in this order.
\<close>

fun rx_match :: "item list \<Rightarrow> string \<Rightarrow> string option" where
  "rx_match [] s = Some s"
| "rx_match (One k # p) [] = None"
| "rx_match (One k # p) (c # s) = (if cls_match k c then rx_match p s else None)"
| "rx_match (Star k # p) [] = rx_match p []"
| "rx_match (Star k # p) (c # s) =
     (if cls_match k c
      then (case rx_match (Star k # p) s of
              Some r \<Rightarrow> Some r
            | None \<Rightarrow> rx_match p (c # s))
      else rx_match p (c # s))"

text \<open>
  The characters with a meaning in the syntax of Go's regular expressions, the ones
  \<^verbatim>\<open>regexp.QuoteMeta\<close> escapes. The source formats the slug into the expression without
  escaping it, so the pattern below is the compiled one for the slugs that have none of
  them; a slug that has one is outside this model (Go compiles another expression, or
  \<^verbatim>\<open>regexp.MustCompile\<close> panics).
\<close>

definition regexpLiteral :: "string \<Rightarrow> bool" where
  "regexpLiteral s = list_all (\<lambda>c. c \<notin> set (CHR 0x5C # ''.+*?()|[]{}^$'')) s"

definition numericSuffixPattern :: "string \<Rightarrow> item list" where
  "numericSuffixPattern slug =
     [Star AnyChar, One PathSep] @ map (\<lambda>c. One (Lit c)) slug
       @ [One (Lit CHR ''-''), Star Digit, One (Lit CHR ''/'')]"

text \<open>
  \<^verbatim>\<open>strings.Replace(file, "\\", "/", -1)\<close> and \<^verbatim>\<open>filepath.FromSlash\<close>. The latter
  returns its argument when the host separator is the slash and replaces every slash by
  the separator otherwise; the separator of the host is a parameter.
\<close>

definition backslashesToSlashes :: "string \<Rightarrow> string" where
  "backslashesToSlashes file = map (\<lambda>c. if c = backslash then CHR ''/'' else c) file"

definition FromSlash :: "char \<Rightarrow> string \<Rightarrow> string" where
  "FromSlash sep path =
     (if sep = CHR ''/'' then path
      else map (\<lambda>c. if c = CHR ''/'' then sep else c) path)"

text \<open>
  The pattern is anchored and its match is never empty, so \<^verbatim>\<open>ReplaceAll\<close> removes at
  most the one match at the start of the name.
\<close>

definition sanitizeLegacyNumericSuffixFilepath :: "char \<Rightarrow> string \<Rightarrow> string \<Rightarrow> string" where
  "sanitizeLegacyNumericSuffixFilepath sep file slug =
     (let file1 = (case rx_match (numericSuffixPattern slug) file of
                     Some rest \<Rightarrow> rest
                   | None \<Rightarrow> file)
      in FromSlash sep (backslashesToSlashes file1))"

section \<open>Joining paths\<close>

text \<open>
  \<^verbatim>\<open>filepath.Join\<close> of the Go library on a host whose separator is the slash: the
  leading empty elements are dropped, the others are joined with slashes and the result
  is passed through \<^verbatim>\<open>filepath.Clean\<close>. \<^verbatim>\<open>Clean\<close> is modelled on path elements:
  empty elements and \<^verbatim>\<open>.\<close> vanish, \<^verbatim>\<open>..\<close> removes the element before it, stays
  at the front of a relative path when there is nothing to remove and vanishes at the
  root; an empty result is written \<^verbatim>\<open>.\<close>.
\<close>

fun splitSlash :: "string \<Rightarrow> string list" where
  "splitSlash [] = [[]]"
| "splitSlash (c # cs) =
     (if c = CHR ''/'' then [] # splitSlash cs
      else (case splitSlash cs of
              [] \<Rightarrow> [[c]]
            | e # es \<Rightarrow> (c # e) # es))"

fun joinStrings :: "string \<Rightarrow> string list \<Rightarrow> string" where
  "joinStrings s [] = []"
| "joinStrings s [e] = e"
| "joinStrings s (e # es) = e @ s @ joinStrings s es"

definition cleanStep :: "bool \<Rightarrow> string list \<Rightarrow> string \<Rightarrow> string list" where
  "cleanStep rooted out e =
     (if e = [] \<or> e = ''.'' then out
      else if e = ''..'' then
        (if out \<noteq> [] \<and> last out \<noteq> ''..'' then butlast out
         else if rooted then out
         else out @ [''..''])
      else out @ [e])"

definition isRooted :: "string \<Rightarrow> bool" where
  "isRooted path = (case path of [] \<Rightarrow> False | c # _ \<Rightarrow> c = CHR ''/'')"

definition renderPath :: "bool \<Rightarrow> string list \<Rightarrow> string" where
  "renderPath rooted out = (if rooted then ''/'' else []) @ joinStrings ''/'' out"

definition Clean :: "string \<Rightarrow> string" where
  "Clean path =
     (if path = [] then ''.''
      else let rooted = isRooted path;
               out = foldl (cleanStep rooted) [] (splitSlash path);
               res = renderPath rooted out
           in if res = [] then ''.'' else res)"

definition Join :: "string list \<Rightarrow> string" where
  "Join elem =
     (case dropWhile (\<lambda>e. e = []) elem of
        [] \<Rightarrow> []
      | es \<Rightarrow> Clean (joinStrings ''/'' es))"

text \<open>\<^verbatim>\<open>filepath.Dir\<close>: the path up to its last slash, cleaned.\<close>

definition Dir :: "string \<Rightarrow> string" where
  "Dir path = Clean (rev (dropWhile (\<lambda>c. c \<noteq> CHR ''/'') (rev path)))"



section \<open>Data model\<close>

text \<open>
  Errors. The constructors stand for the messages of the source:
  \<^item> \<open>NeedExerciseOrUUIDFlag\<close>: \<^verbatim>\<open>need an --exercise name or a solution --uuid\<close>;
  \<^item> \<open>NeedSlugOrUUID\<close>: \<^verbatim>\<open>need a 'slug' or a 'uuid'\<close>;
  \<^item> \<open>MissingUserConfig k\<close>: \<^verbatim>\<open>missing required user config: 'k'\<close>;
  \<^item> \<open>TeamOrTrackRequiresExercise\<close>: \<^verbatim>\<open>--team or --track requires --exercise (not --uuid)\<close>;
  \<^item> \<open>ExistingFilesNotOverwritten\<close>: \<^verbatim>\<open>existing exercise files should not be overwritten\<close>;
  \<^item> \<open>DownloadMissingID\<close>: \<^verbatim>\<open>download missing an ID\<close>;
  \<^item> \<open>ErrorMessage m\<close>: \<^verbatim>\<open>errors.New(Error.Message)\<close>;
  \<^item> \<open>TrackAmbiguous m ids\<close>: the message followed by the comma-joined track ids;
  \<^item> \<open>Unauthorized url\<close>: the request to run the configure command, with the site URL;
  \<^item> \<open>UnableToParse e\<close>: \<^verbatim>\<open>unable to parse API response - e\<close>;
  \<^item> \<open>External e\<close>: an error returned by a collaborator (api, net/url, os, io);
  \<^item> \<open>NilPointerPanic\<close>: not a returned error; the field of a nil payload is read and
    the program panics.
\<close>

datatype error =
    NeedExerciseOrUUIDFlag
  | NeedSlugOrUUID
  | MissingUserConfig string
  | TeamOrTrackRequiresExercise
  | ExistingFilesNotOverwritten
  | DownloadMissingID
  | ErrorMessage string
  | TrackAmbiguous string "string list"
  | Unauthorized string
  | UnableToParse string
  | External string
  | NilPointerPanic

text \<open>\<^verbatim>\<open>downloadParams\<close> of cmd.go.\<close>

record downloadParams =
  slug :: string
  uuid :: string
  token :: string
  apibaseurl :: string
  workspace :: string
  track :: string
  team :: string
  fromExercise :: bool
  fromFlags :: bool

text \<open>
  \<^verbatim>\<open>downloadParams\<close> of the flat pipeline. \<open>cfg\<close> holds what
  \<^verbatim>\<open>cfg.UserViperConfig.GetString\<close> returns for the three keys the pipeline reads.
\<close>

record userConfig =
  cfg_token :: string
  cfg_apibaseurl :: string
  cfg_workspace :: string

record flatParams =
  flat_cfg :: userConfig
  flat_uuid :: string
  flat_slug :: string
  flat_track :: string
  flat_team :: string
  flat_urlParam :: string

text \<open>\<^verbatim>\<open>downloadPayload\<close>, the same in both files.\<close>

record payloadTeam =
  Team_Name :: string
  Team_Slug :: string

record payloadUser =
  User_Handle :: string
  User_IsRequester :: bool

record payloadTrack =
  Track_ID :: string
  Track_Language :: string

record payloadExercise =
  Exercise_ID :: string
  Exercise_InstructionsURL :: string
  Exercise_AutoApprove :: bool
  Exercise_Track :: payloadTrack

record payloadSolution =
  Solution_ID :: string
  Solution_URL :: string
  Solution_Team :: payloadTeam
  Solution_User :: payloadUser
  Solution_Exercise :: payloadExercise
  FileDownloadBaseURL :: string
  Files :: "string list"
  Iteration_SubmittedAt :: "string option"

record payloadError =
  Error_Type :: string
  Error_Message :: string
  PossibleTrackIDs :: "string list"

record downloadPayload =
  Solution :: payloadSolution
  Error :: payloadError

text \<open>
  \<^verbatim>\<open>download\<close>: the parameters and the decoded payload. The methods that run before the
  payload is decoded (\<^verbatim>\<open>requestURL\<close>, \<^verbatim>\<open>buildQuery\<close>) read the parameters only and
  are functions of the parameters.
\<close>

record download =
  params :: downloadParams
  payload :: downloadPayload

text \<open>\<^verbatim>\<open>workspace.Exercise\<close> and \<^verbatim>\<open>workspace.ExerciseMetadata\<close>.\<close>

record Exercise =
  Root :: string
  Track :: string
  Slug :: string

record ExerciseMetadata =
  md_AutoApprove :: bool
  md_Track :: string
  md_Team :: string
  md_Exercise :: string
  md_ID :: string
  md_URL :: string
  md_Handle :: string
  md_IsRequester :: bool

section \<open>Parameter validation\<close>

definition needsSlugXorUUID :: "downloadParams \<Rightarrow> error option" where
  "needsSlugXorUUID d =
     (if slug d \<noteq> [] \<and> uuid d \<noteq> [] \<or> uuid d = slug d then
        (if fromFlags d then Some NeedExerciseOrUUIDFlag else Some NeedSlugOrUUID)
      else None)"

definition needsUserConfigValues :: "downloadParams \<Rightarrow> error option" where
  "needsUserConfigValues d =
     (if token d = [] then Some (MissingUserConfig ''token'')
      else if apibaseurl d = [] then Some (MissingUserConfig ''apibaseurl'')
      else if workspace d = [] then Some (MissingUserConfig ''workspace'')
      else None)"

definition needsSlugWhenGivenTrackOrTeam :: "downloadParams \<Rightarrow> error option" where
  "needsSlugWhenGivenTrackOrTeam d =
     (if fromFlags d then
        (if (team d \<noteq> [] \<or> track d \<noteq> []) \<and> slug d = [] then Some TeamOrTrackRequiresExercise
         else None)
      else None)"

text \<open>\<^verbatim>\<open>(d *downloadParams) validate\<close>: the three rules in the order of the source.\<close>

definition downloadParams_validate :: "downloadParams \<Rightarrow> error option" where
  "downloadParams_validate d =
     (case needsSlugXorUUID d of
        Some err \<Rightarrow> Some err
      | None \<Rightarrow>
          (case needsUserConfigValues d of
             Some err \<Rightarrow> Some err
           | None \<Rightarrow>
               (case needsSlugWhenGivenTrackOrTeam d of
                  Some err \<Rightarrow> Some err
                | None \<Rightarrow> None)))"

section \<open>Request construction\<close>

text \<open>
  \<^verbatim>\<open>url.Values\<close> maps a key to the list of its values; a key that is absent has no
  values. \<^verbatim>\<open>Add\<close> appends a value to the list of the key. A request is the URL text
  given to \<^verbatim>\<open>NewRequest\<close> together with the parameters its query ends up with
  (\<^verbatim>\<open>RawQuery\<close> is their encoding).
\<close>

type_synonym Values = "string \<Rightarrow> string list"

definition noValues :: Values where
  "noValues = (\<lambda>key. [])"

definition Add :: "string \<Rightarrow> string \<Rightarrow> Values \<Rightarrow> Values" where
  "Add key v q = q(key := q key @ [v])"

record request =
  req_url :: string
  req_query :: Values

definition requestURL :: "downloadParams \<Rightarrow> string" where
  "requestURL p =
     (let id = (if uuid p \<noteq> [] then uuid p else ''latest'')
      in apibaseurl p @ ''/solutions/'' @ id)"

text \<open>\<open>query\<close> is \<^verbatim>\<open>url.Query()\<close>, the parameters the URL already has.\<close>

definition buildQuery :: "downloadParams \<Rightarrow> Values \<Rightarrow> Values" where
  "buildQuery p query =
     (if slug p \<noteq> [] then
        (let q1 = Add ''exercise_id'' (slug p) query;
             q2 = (if track p \<noteq> [] then Add ''track_id'' (track p) q1 else q1);
             q3 = (if team p \<noteq> [] then Add ''team_id'' (team p) q2 else q2)
         in q3)
      else query)"

text \<open>
  The request construction of \<^verbatim>\<open>getDownloadPayload\<close>: the URL of lines 66 to 69 and the
  query block of lines 81 to 91, which is entered when the uuid is empty.
\<close>

definition getDownloadPayload_url :: "flatParams \<Rightarrow> string" where
  "getDownloadPayload_url fp =
     cfg_apibaseurl (flat_cfg fp) @ ''/solutions/'' @ flat_urlParam fp"

definition getDownloadPayload_query :: "flatParams \<Rightarrow> Values \<Rightarrow> Values" where
  "getDownloadPayload_query fp query =
     (if flat_uuid fp = [] then
        (let q1 = Add ''exercise_id'' (flat_slug fp) query;
             q2 = (if flat_track fp \<noteq> [] then Add ''track_id'' (flat_track fp) q1 else q1);
             q3 = (if flat_team fp \<noteq> [] then Add ''team_id'' (flat_team fp) q2 else q2)
         in q3)
      else query)"

section \<open>Collaborators\<close>

text \<open>
  What the pipeline calls but does not own: the API client, the JSON decoder, the URL and
  path functions of the host, the file system and the workspace package. An HTTP response
  is its status code, the value of its \<^verbatim>\<open>Content-Length\<close> header and its body. The
  history of the calls made so far is a list of events; the answer of the server may
  depend on it.
\<close>

record response =
  StatusCode :: int
  Header_ContentLength :: string
  Body :: string

datatype event =
    CallNewClient string string
  | CallDo request

text \<open>
  \<^item> \<open>NewClient token url\<close>: \<^verbatim>\<open>api.NewClient\<close>, a client and possibly an error;
  \<^item> \<open>NewRequest client url\<close>: \<^verbatim>\<open>client.NewRequest("GET", url, nil)\<close>, an error or the
    parameters the URL carries already;
  \<^item> \<open>Do history client req\<close>: \<^verbatim>\<open>client.Do(req)\<close>, an error or the response;
  \<^item> \<open>Decode body\<close>: the JSON decoder on a payload pointer, an error or the pointer
    (\<open>None\<close> when the body leaves it nil);
  \<^item> \<open>InferSiteURL\<close>: \<^verbatim>\<open>config.InferSiteURL\<close>;
  \<^item> \<open>ParseRequestURI u\<close>: \<^verbatim>\<open>netURL.ParseRequestURI\<close>, an error or the text of the
    parsed URL;
  \<^item> \<open>Separator\<close>, \<open>filepath_Join\<close>, \<open>filepath_Dir\<close>: \<^verbatim>\<open>path/filepath\<close> of the host;
  \<^item> \<open>MetadataDir\<close>: \<^verbatim>\<open>workspace.Exercise.MetadataDir\<close>;
  \<^item> \<open>MkdirAll\<close>, \<open>Create\<close>, \<open>Copy\<close>, \<open>Write\<close>: \<^verbatim>\<open>os.MkdirAll\<close>, \<^verbatim>\<open>os.Create\<close>,
    \<^verbatim>\<open>io.Copy\<close> of a body into the file created at a path, and
    \<^verbatim>\<open>ExerciseMetadata.Write\<close>; each returns its error, if any, and the file system it
    leaves behind.
\<close>

record ('c, 'fs) env =
  NewClient :: "string \<Rightarrow> string \<Rightarrow> 'c \<times> string option"
  NewRequest :: "'c \<Rightarrow> string \<Rightarrow> string + Values"
  Do :: "event list \<Rightarrow> 'c \<Rightarrow> request \<Rightarrow> string + response"
  Decode :: "string \<Rightarrow> string + downloadPayload option"
  InferSiteURL :: "string \<Rightarrow> string"
  ParseRequestURI :: "string \<Rightarrow> string + string"
  Separator :: char
  filepath_Join :: "string list \<Rightarrow> string"
  filepath_Dir :: "string \<Rightarrow> string"
  MetadataDir :: "Exercise \<Rightarrow> string"
  MkdirAll :: "string \<Rightarrow> 'fs \<Rightarrow> string option \<times> 'fs"
  Create :: "string \<Rightarrow> 'fs \<Rightarrow> string option \<times> 'fs"
  Copy :: "string \<Rightarrow> string \<Rightarrow> 'fs \<Rightarrow> string option \<times> 'fs"
  Write :: "ExerciseMetadata \<Rightarrow> string \<Rightarrow> 'fs \<Rightarrow> string option \<times> 'fs"

section \<open>Fetching the payload\<close>

text \<open>\<^verbatim>\<open>(d *download) validate\<close>.\<close>

definition download_validate :: "download \<Rightarrow> error option" where
  "download_validate d =
     (if Solution_ID (Solution (payload d)) = [] then Some DownloadMissingID
      else if Error_Message (Error (payload d)) \<noteq> [] then
        Some (ErrorMessage (Error_Message (Error (payload d))))
      else None)"

text \<open>
  The error of a response whose status is neither 401 nor 200, as both pipelines build it.
\<close>

definition apiError :: "downloadPayload \<Rightarrow> error" where
  "apiError pl =
     (if Error_Type (Error pl) = ''track_ambiguous'' then
        TrackAmbiguous (Error_Message (Error pl)) (PossibleTrackIDs (Error pl))
      else ErrorMessage (Error_Message (Error pl)))"

text \<open>
  \<^verbatim>\<open>newDownload\<close> returns a download and an error, and extends the history of calls.
  The deferred \<^verbatim>\<open>Close\<close> of the response body has no part in the result and is left
  out, here and in the writers.
\<close>

definition newDownload ::
  "('c, 'fs) env \<Rightarrow> downloadParams \<Rightarrow> event list
     \<Rightarrow> (download option \<times> error option) \<times> event list" where
  "newDownload env p tr =
     (case downloadParams_validate p of
        Some err \<Rightarrow> ((None, Some err), tr)
      | None \<Rightarrow>
          (case NewClient env (token p) (apibaseurl p) of
             (client, cerr) \<Rightarrow>
               let tr1 = tr @ [CallNewClient (token p) (apibaseurl p)] in
               (case cerr of
                  Some e \<Rightarrow> ((None, Some (External e)), tr1)
                | None \<Rightarrow>
                    (case NewRequest env client (requestURL p) of
                       Inl e \<Rightarrow> ((None, Some (External e)), tr1)
                     | Inr query \<Rightarrow>
                         let req = \<lparr>req_url = requestURL p, req_query = buildQuery p query\<rparr>;
                             tr2 = tr1 @ [CallDo req]
                         in
                         (case Do env tr1 client req of
                            Inl e \<Rightarrow> ((None, Some (External e)), tr2)
                          | Inr res \<Rightarrow>
                              (case Decode env (Body res) of
                                 Inl e \<Rightarrow> ((None, Some (UnableToParse e)), tr2)
                               | Inr decoded \<Rightarrow>
                                   if StatusCode res = 401 then
                                     ((None, Some (Unauthorized (InferSiteURL env (apibaseurl p)))), tr2)
                                   else
                                     (case decoded of
                                        None \<Rightarrow> ((None, Some NilPointerPanic), tr2)
                                      | Some pl \<Rightarrow>
                                          if StatusCode res \<noteq> 200 then
                                            ((None, Some (apiError pl)), tr2)
                                          else
                                            let d = \<lparr>params = p, payload = pl\<rparr>
                                            in ((Some d, download_validate d), tr2))))))))"

text \<open>
  \<^verbatim>\<open>getDownloadPayload\<close> of the flat pipeline returns the payload pointer and an error.
  At status 200 the pointer is returned as decoded, nil included.
\<close>

definition getDownloadPayload ::
  "('c, 'fs) env \<Rightarrow> flatParams \<Rightarrow> event list
     \<Rightarrow> (downloadPayload option \<times> error option) \<times> event list" where
  "getDownloadPayload env fp tr =
     (let usrCfg = flat_cfg fp;
          url = getDownloadPayload_url fp
      in
      (case NewClient env (cfg_token usrCfg) (cfg_apibaseurl usrCfg) of
         (client, cerr) \<Rightarrow>
           let tr1 = tr @ [CallNewClient (cfg_token usrCfg) (cfg_apibaseurl usrCfg)] in
           (case cerr of
              Some e \<Rightarrow> ((None, Some (External e)), tr1)
            | None \<Rightarrow>
                (case NewRequest env client url of
                   Inl e \<Rightarrow> ((None, Some (External e)), tr1)
                 | Inr query \<Rightarrow>
                     let req = \<lparr>req_url = url, req_query = getDownloadPayload_query fp query\<rparr>;
                         tr2 = tr1 @ [CallDo req]
                     in
                     (case Do env tr1 client req of
                        Inl e \<Rightarrow> ((None, Some (External e)), tr2)
                      | Inr res \<Rightarrow>
                          (case Decode env (Body res) of
                             Inl e \<Rightarrow> ((None, Some (UnableToParse e)), tr2)
                           | Inr decoded \<Rightarrow>
                               if StatusCode res = 401 then
                                 ((None, Some (Unauthorized (InferSiteURL env (cfg_apibaseurl usrCfg)))), tr2)
                               else if StatusCode res \<noteq> 200 then
                                 (case decoded of
                                    None \<Rightarrow> ((None, Some NilPointerPanic), tr2)
                                  | Some pl \<Rightarrow> ((None, Some (apiError pl)), tr2))
                               else ((decoded, None), tr2)))))))"

section \<open>Destination\<close>

definition isTeamSolution :: "download \<Rightarrow> bool" where
  "isTeamSolution d = (Team_Slug (Solution_Team (Solution (payload d))) \<noteq> [])"

definition solutionBelongsToOtherUser :: "download \<Rightarrow> bool" where
  "solutionBelongsToOtherUser d = (\<not> User_IsRequester (Solution_User (Solution (payload d))))"

definition solutionRoot :: "('c, 'fs) env \<Rightarrow> download \<Rightarrow> string" where
  "solutionRoot env d =
     (let root = workspace (params d);
          root1 = (if isTeamSolution d
                   then filepath_Join env [root, ''teams'', Team_Slug (Solution_Team (Solution (payload d)))]
                   else root);
          root2 = (if solutionBelongsToOtherUser d
                   then filepath_Join env [root1, ''users'', User_Handle (Solution_User (Solution (payload d)))]
                   else root1)
      in root2)"

definition exercise :: "('c, 'fs) env \<Rightarrow> download \<Rightarrow> Exercise" where
  "exercise env d =
     \<lparr>Root = solutionRoot env d,
      Track = Track_ID (Exercise_Track (Solution_Exercise (Solution (payload d)))),
      Slug = Exercise_ID (Solution_Exercise (Solution (payload d)))\<rparr>"

definition metadata :: "download \<Rightarrow> ExerciseMetadata" where
  "metadata d =
     \<lparr>md_AutoApprove = Exercise_AutoApprove (Solution_Exercise (Solution (payload d))),
      md_Track = Track_ID (Exercise_Track (Solution_Exercise (Solution (payload d)))),
      md_Team = Team_Slug (Solution_Team (Solution (payload d))),
      md_Exercise = Exercise_ID (Solution_Exercise (Solution (payload d))),
      md_ID = Solution_ID (Solution (payload d)),
      md_URL = Solution_URL (Solution (payload d)),
      md_Handle = User_Handle (Solution_User (Solution (payload d))),
      md_IsRequester = User_IsRequester (Solution_User (Solution (payload d)))\<rparr>"

definition destination :: "('c, 'fs) env \<Rightarrow> download \<Rightarrow> string" where
  "destination env d = MetadataDir env (exercise env d)"

text \<open>
  The root as \<^verbatim>\<open>writeSolutionFilesFromPayload\<close> computes it (lines 171 to 177) from the
  configured workspace and the payload.
\<close>

definition payloadRoot :: "('c, 'fs) env \<Rightarrow> userConfig \<Rightarrow> downloadPayload \<Rightarrow> string" where
  "payloadRoot env usrCfg pl =
     (let root = cfg_workspace usrCfg;
          root1 = (if Team_Slug (Solution_Team (Solution pl)) \<noteq> []
                   then filepath_Join env [root, ''teams'', Team_Slug (Solution_Team (Solution pl))]
                   else root);
          root2 = (if \<not> User_IsRequester (Solution_User (Solution pl))
                   then filepath_Join env [root1, ''users'', User_Handle (Solution_User (Solution pl))]
                   else root1)
      in root2)"

section \<open>Writing the files\<close>

text \<open>
  \<^verbatim>\<open>requestFile\<close> returns a response and an error; both are nil when the file is to be
  skipped. The error of \<^verbatim>\<open>api.NewClient\<close> is bound to \<^verbatim>\<open>err\<close> and overwritten by the
  next statement before anything reads it.
\<close>

definition requestFile ::
  "('c, 'fs) env \<Rightarrow> download \<Rightarrow> string \<Rightarrow> event list
     \<Rightarrow> (response option \<times> error option) \<times> event list" where
  "requestFile env d filename tr =
     (case ParseRequestURI env (FileDownloadBaseURL (Solution (payload d)) @ filename) of
        Inl e \<Rightarrow> ((None, Some (External e)), tr)
      | Inr parsedURL \<Rightarrow>
          (case NewClient env (token (params d)) (apibaseurl (params d)) of
             (client, cerr) \<Rightarrow>
               let tr1 = tr @ [CallNewClient (token (params d)) (apibaseurl (params d))] in
               (case NewRequest env client parsedURL of
                  Inl e \<Rightarrow> ((None, Some (External e)), tr1)
                | Inr query \<Rightarrow>
                    let req = \<lparr>req_url = parsedURL, req_query = query\<rparr>;
                        tr2 = tr1 @ [CallDo req]
                    in
                    (case Do env tr1 client req of
                       Inl e \<Rightarrow> ((None, Some (External e)), tr2)
                     | Inr res \<Rightarrow>
                         if StatusCode res \<noteq> 200 then ((None, None), tr2)
                         else if Header_ContentLength res = ''0'' then ((None, None), tr2)
                         else ((Some res, None), tr2)))))"

text \<open>
  The body of the loop of \<^verbatim>\<open>writeSolutionFiles\<close> for one file name. An error ends the
  loop; no error, whether the file was written or skipped, lets it go on.
\<close>

definition writeSolutionFiles_body ::
  "('c, 'fs) env \<Rightarrow> download \<Rightarrow> string \<Rightarrow> event list \<Rightarrow> 'fs
     \<Rightarrow> error option \<times> event list \<times> 'fs" where
  "writeSolutionFiles_body env d filename tr fs =
     (case requestFile env d filename tr of
        ((res, err), tr') \<Rightarrow>
          (case err of
             Some e \<Rightarrow> (Some e, tr', fs)
           | None \<Rightarrow>
               (case res of
                  None \<Rightarrow> (None, tr', fs)
                | Some r \<Rightarrow>
                    let sanitizedPath =
                          sanitizeLegacyNumericSuffixFilepath (Separator env) filename
                            (Slug (exercise env d));
                        fileWritePath = filepath_Join env [destination env d, sanitizedPath]
                    in
                    (case MkdirAll env (filepath_Dir env fileWritePath) fs of
                       (Some e, fs1) \<Rightarrow> (Some (External e), tr', fs1)
                     | (None, fs1) \<Rightarrow>
                         (case Create env fileWritePath fs1 of
                            (Some e, fs2) \<Rightarrow> (Some (External e), tr', fs2)
                          | (None, fs2) \<Rightarrow>
                              (case Copy env fileWritePath (Body r) fs2 of
                                 (Some e, fs3) \<Rightarrow> (Some (External e), tr', fs3)
                               | (None, fs3) \<Rightarrow> (None, tr', fs3)))))))"

fun writeSolutionFiles_loop ::
  "('c, 'fs) env \<Rightarrow> download \<Rightarrow> string list \<Rightarrow> event list \<Rightarrow> 'fs
     \<Rightarrow> error option \<times> event list \<times> 'fs" where
  "writeSolutionFiles_loop env d [] tr fs = (None, tr, fs)"
| "writeSolutionFiles_loop env d (filename # rest) tr fs =
     (case writeSolutionFiles_body env d filename tr fs of
        (Some e, tr', fs') \<Rightarrow> (Some e, tr', fs')
      | (None, tr', fs') \<Rightarrow> writeSolutionFiles_loop env d rest tr' fs')"

definition writeSolutionFiles ::
  "('c, 'fs) env \<Rightarrow> download \<Rightarrow> event list \<Rightarrow> 'fs \<Rightarrow> error option \<times> event list \<times> 'fs" where
  "writeSolutionFiles env d tr fs =
     (if fromExercise (params d) then (Some ExistingFilesNotOverwritten, tr, fs)
      else writeSolutionFiles_loop env d (Files (Solution (payload d))) tr fs)"

definition writeMetadata ::
  "('c, 'fs) env \<Rightarrow> download \<Rightarrow> 'fs \<Rightarrow> error option \<times> 'fs" where
  "writeMetadata env d fs =
     (case Write env (metadata d) (destination env d) fs of
        (Some e, fs1) \<Rightarrow> (Some (External e), fs1)
      | (None, fs1) \<Rightarrow> (None, fs1))"

text \<open>
  The flat pipeline. The body of the loop of \<^verbatim>\<open>writeSolutionFilesFromPayload\<close> for one
  file: lines 218 to 228 are the text of \<^verbatim>\<open>sanitizeLegacyNumericSuffixFilepath\<close> with
  the exercise id of the payload as the slug.
\<close>

definition writeSolutionFilesFromPayload_body ::
  "('c, 'fs) env \<Rightarrow> userConfig \<Rightarrow> downloadPayload \<Rightarrow> Exercise \<Rightarrow> string
     \<Rightarrow> event list \<Rightarrow> 'fs \<Rightarrow> error option \<times> event list \<times> 'fs" where
  "writeSolutionFilesFromPayload_body env usrCfg pl ex file tr fs =
     (case ParseRequestURI env (FileDownloadBaseURL (Solution pl) @ file) of
        Inl e \<Rightarrow> (Some (External e), tr, fs)
      | Inr parsedURL \<Rightarrow>
          (case NewClient env (cfg_token usrCfg) (cfg_apibaseurl usrCfg) of
             (client, cerr) \<Rightarrow>
               let tr1 = tr @ [CallNewClient (cfg_token usrCfg) (cfg_apibaseurl usrCfg)] in
               (case NewRequest env client parsedURL of
                  Inl e \<Rightarrow> (Some (External e), tr1, fs)
                | Inr query \<Rightarrow>
                    let req = \<lparr>req_url = parsedURL, req_query = query\<rparr>;
                        tr2 = tr1 @ [CallDo req]
                    in
                    (case Do env tr1 client req of
                       Inl e \<Rightarrow> (Some (External e), tr2, fs)
                     | Inr res \<Rightarrow>
                         if StatusCode res \<noteq> 200 then (None, tr2, fs)
                         else if Header_ContentLength res = ''0'' then (None, tr2, fs)
                         else
                           let relativePath =
                                 sanitizeLegacyNumericSuffixFilepath (Separator env) file
                                   (Exercise_ID (Solution_Exercise (Solution pl)));
                               dir = filepath_Join env
                                       [MetadataDir env ex, filepath_Dir env relativePath]
                           in
                           (case MkdirAll env dir fs of
                              (Some e, fs1) \<Rightarrow> (Some (External e), tr2, fs1)
                            | (None, fs1) \<Rightarrow>
                                (case Create env (filepath_Join env [MetadataDir env ex, relativePath]) fs1 of
                                   (Some e, fs2) \<Rightarrow> (Some (External e), tr2, fs2)
                                 | (None, fs2) \<Rightarrow>
                                     (case Copy env (filepath_Join env [MetadataDir env ex, relativePath])
                                             (Body res) fs2 of
                                        (Some e, fs3) \<Rightarrow> (Some (External e), tr2, fs3)
                                      | (None, fs3) \<Rightarrow> (None, tr2, fs3))))))))"

fun writeSolutionFilesFromPayload_loop ::
  "('c, 'fs) env \<Rightarrow> userConfig \<Rightarrow> downloadPayload \<Rightarrow> Exercise \<Rightarrow> string list
     \<Rightarrow> event list \<Rightarrow> 'fs \<Rightarrow> error option \<times> event list \<times> 'fs" where
  "writeSolutionFilesFromPayload_loop env usrCfg pl ex [] tr fs = (None, tr, fs)"
| "writeSolutionFilesFromPayload_loop env usrCfg pl ex (file # rest) tr fs =
     (case writeSolutionFilesFromPayload_body env usrCfg pl ex file tr fs of
        (Some e, tr', fs') \<Rightarrow> (Some e, tr', fs')
      | (None, tr', fs') \<Rightarrow> writeSolutionFilesFromPayload_loop env usrCfg pl ex rest tr' fs')"

text \<open>The payload is a pointer: \<open>None\<close> is the nil that \<^verbatim>\<open>getDownloadPayload\<close> can return.\<close>

definition writeSolutionFilesFromPayload ::
  "('c, 'fs) env \<Rightarrow> downloadPayload option \<Rightarrow> userConfig \<Rightarrow> event list \<Rightarrow> 'fs
     \<Rightarrow> error option \<times> event list \<times> 'fs" where
  "writeSolutionFilesFromPayload env popt usrCfg tr fs =
     (case popt of
        None \<Rightarrow> (Some NilPointerPanic, tr, fs)
      | Some pl \<Rightarrow>
          if Error_Message (Error pl) \<noteq> [] then
            (Some (ErrorMessage (Error_Message (Error pl))), tr, fs)
          else
            let ex = \<lparr>Root = payloadRoot env usrCfg pl,
                      Track = Track_ID (Exercise_Track (Solution_Exercise (Solution pl))),
                      Slug = Exercise_ID (Solution_Exercise (Solution pl))\<rparr>
            in writeSolutionFilesFromPayload_loop env usrCfg pl ex (Files (Solution pl)) tr fs)"

definition writeMetadataFromPayload ::
  "('c, 'fs) env \<Rightarrow> downloadPayload option \<Rightarrow> userConfig \<Rightarrow> 'fs \<Rightarrow> error option \<times> 'fs" where
  "writeMetadataFromPayload env popt usrCfg fs =
     (case popt of
        None \<Rightarrow> (Some NilPointerPanic, fs)
      | Some pl \<Rightarrow>
          if Error_Message (Error pl) \<noteq> [] then
            (Some (ErrorMessage (Error_Message (Error pl))), fs)
          else
            let md = \<lparr>md_AutoApprove = Exercise_AutoApprove (Solution_Exercise (Solution pl)),
                      md_Track = Track_ID (Exercise_Track (Solution_Exercise (Solution pl))),
                      md_Team = Team_Slug (Solution_Team (Solution pl)),
                      md_Exercise = Exercise_ID (Solution_Exercise (Solution pl)),
                      md_ID = Solution_ID (Solution pl),
                      md_URL = Solution_URL (Solution pl),
                      md_Handle = User_Handle (Solution_User (Solution pl)),
                      md_IsRequester = User_IsRequester (Solution_User (Solution pl))\<rparr>;
                root = cfg_workspace usrCfg;
                root1 = (if md_Team md \<noteq> []
                         then filepath_Join env [root, ''teams'', md_Team md] else root);
                root2 = (if \<not> md_IsRequester md
                         then filepath_Join env [root1, ''users'', md_Handle md] else root1);
                ex = \<lparr>Root = root2, Track = md_Track md, Slug = md_Exercise md\<rparr>;
                dir = MetadataDir env ex
            in
            (case MkdirAll env dir fs of
               (Some e, fs1) \<Rightarrow> (Some (External e), fs1)
             | (None, fs1) \<Rightarrow>
                 (case Write env md dir fs1 of
                    (Some e, fs2) \<Rightarrow> (Some (External e), fs2)
                  | (None, fs2) \<Rightarrow> (None, fs2))))"

section \<open>A host to run the definitions on\<close>

text \<open>
  A host with slash-separated paths whose file system is a map from paths to contents.
  Its server answers by the URL of the request, its decoder is given, client and request
  construction succeed, and an exercise lives in the directory track/slug below its root.
\<close>

definition exampleEnv ::
  "(string \<Rightarrow> string + response) \<Rightarrow> (string \<Rightarrow> string + downloadPayload option)
     \<Rightarrow> (unit, string \<rightharpoonup> string) env" where
  "exampleEnv server decode =
     \<lparr>NewClient = (\<lambda>tok url. ((), None)),
      NewRequest = (\<lambda>client url. Inr noValues),
      Do = (\<lambda>tr client req. server (req_url req)),
      Decode = decode,
      InferSiteURL = (\<lambda>url. url),
      ParseRequestURI = (\<lambda>url. Inr url),
      Separator = CHR ''/'',
      filepath_Join = Join,
      filepath_Dir = Dir,
      MetadataDir = (\<lambda>ex. Join [Root ex, Track ex, Slug ex]),
      MkdirAll = (\<lambda>dir fs. (None, fs)),
      Create = (\<lambda>path fs. (None, fs(path \<mapsto> []))),
      Copy = (\<lambda>path body fs. (None, fs(path \<mapsto> body))),
      Write = (\<lambda>md dir fs. (None, fs(Join [dir, ''metadata''] \<mapsto> md_ID md)))\<rparr>"

definition exampleParams :: downloadParams where
  "exampleParams =
     \<lparr>slug = ''bob'', uuid = [], token = ''abc123'',
      apibaseurl = ''https://api.exercism.io/v1'', workspace = ''/home/alice/exercism'',
      track = ''go'', team = [], fromExercise = False, fromFlags = True\<rparr>"

definition examplePayload :: downloadPayload where
  "examplePayload =
     \<lparr>Solution =
        \<lparr>Solution_ID = ''bogus-id'', Solution_URL = ''https://exercism.io/my/solutions/bogus-id'',
         Solution_Team = \<lparr>Team_Name = ''Acme'', Team_Slug = ''acme''\<rparr>,
         Solution_User = \<lparr>User_Handle = ''bob'', User_IsRequester = False\<rparr>,
         Solution_Exercise =
           \<lparr>Exercise_ID = ''bob'', Exercise_InstructionsURL = [], Exercise_AutoApprove = False,
            Exercise_Track = \<lparr>Track_ID = ''go'', Track_Language = ''Go''\<rparr>\<rparr>,
         FileDownloadBaseURL = ''https://api.exercism.io/v1/solutions/bogus-id/files/'',
         Files = [''bob.go'', ''bob_test.go''],
         Iteration_SubmittedAt = None\<rparr>,
      Error = \<lparr>Error_Type = [], Error_Message = [], PossibleTrackIDs = []\<rparr>\<rparr>"

text \<open>A server that knows no file, and one that answers every request with an empty file.\<close>

definition notFound :: "string \<Rightarrow> string + response" where
  "notFound url = Inr \<lparr>StatusCode = 404, Header_ContentLength = ''9'', Body = ''not found''\<rparr>"

definition emptyFile :: "string \<Rightarrow> string + response" where
  "emptyFile url = Inr \<lparr>StatusCode = 200, Header_ContentLength = ''0'', Body = []\<rparr>"

text \<open>A server that answers every request with the same file.\<close>

definition fileServer :: "string \<Rightarrow> string + response" where
  "fileServer url = Inr \<lparr>StatusCode = 200, Header_ContentLength = ''11'', Body = ''package bob''\<rparr>"

text \<open>
  Parameters of the flat pipeline that carry the values of \<open>exampleParams\<close>, with the
  URL parameter left at its zero value; the payload an empty JSON object decodes to, and a
  server that answers every request with status 200 and that object.
\<close>

definition exampleFlatParams :: flatParams where
  "exampleFlatParams =
     \<lparr>flat_cfg = \<lparr>cfg_token = ''abc123'', cfg_apibaseurl = ''https://api.exercism.io/v1'',
                  cfg_workspace = ''/home/alice/exercism''\<rparr>,
      flat_uuid = [], flat_slug = ''bob'', flat_track = ''go'', flat_team = [],
      flat_urlParam = []\<rparr>"

definition emptyPayload :: downloadPayload where
  "emptyPayload =
     \<lparr>Solution =
        \<lparr>Solution_ID = [], Solution_URL = [],
         Solution_Team = \<lparr>Team_Name = [], Team_Slug = []\<rparr>,
         Solution_User = \<lparr>User_Handle = [], User_IsRequester = False\<rparr>,
         Solution_Exercise =
           \<lparr>Exercise_ID = [], Exercise_InstructionsURL = [], Exercise_AutoApprove = False,
            Exercise_Track = \<lparr>Track_ID = [], Track_Language = []\<rparr>\<rparr>,
         FileDownloadBaseURL = [], Files = [], Iteration_SubmittedAt = None\<rparr>,
      Error = \<lparr>Error_Type = [], Error_Message = [], PossibleTrackIDs = []\<rparr>\<rparr>"

definition emptyObject :: "string \<Rightarrow> string + response" where
  "emptyObject url = Inr \<lparr>StatusCode = 200, Header_ContentLength = ''2'', Body = ''{}''\<rparr>"

section \<open>The legacy path sanitiser on the example of the specification\<close>

text \<open>The slugs of the examples have no regular expression syntax.\<close>

lemma regexpLiteral_examples: "regexpLiteral ''exercise''" "regexpLiteral ''bob''"
  by (simp_all add: regexpLiteral_def)

lemmas sanitize_defs =
  sanitizeLegacyNumericSuffixFilepath_def numericSuffixPattern_def backslashesToSlashes_def
  backslash_def newline_def

text \<open>
  Claim C1, as stated, fails: the pattern asks for a slash or backslash in front of the
  slug, and \<^verbatim>\<open>exercise-2/foo/bar.rb\<close> has none there. The name is returned as it is,
  not as \<^verbatim>\<open>foo/bar.rb\<close>.
\<close>

theorem sanitize_no_leading_separator_counterexample:
  "sanitizeLegacyNumericSuffixFilepath CHR ''/'' ''exercise-2/foo/bar.rb'' ''exercise''
     = ''exercise-2/foo/bar.rb''
   \<and> sanitizeLegacyNumericSuffixFilepath CHR ''/'' ''exercise-2/foo/bar.rb'' ''exercise''
     \<noteq> FromSlash CHR ''/'' ''foo/bar.rb''"
  by (simp add: sanitize_defs FromSlash_def)

text \<open>
  Claim C1, amended: for the file name \<^verbatim>\<open>/exercise-2/foo/bar.rb\<close>, whose numeric-suffixed
  directory follows a separator, and the slug \<^verbatim>\<open>exercise\<close>, the sanitiser returns
  \<^verbatim>\<open>foo/bar.rb\<close> in the separators of the host, whatever the separator is; the name
  \<^verbatim>\<open>exercise-2/foo/bar.rb\<close> is returned unchanged, in the separators of the host.
\<close>

theorem sanitize_strips_numeric_suffix_directory:
  "sanitizeLegacyNumericSuffixFilepath sep ''/exercise-2/foo/bar.rb'' ''exercise''
     = FromSlash sep ''foo/bar.rb''
   \<and> sanitizeLegacyNumericSuffixFilepath sep ''exercise-2/foo/bar.rb'' ''exercise''
     = FromSlash sep ''exercise-2/foo/bar.rb''"
  by (simp add: sanitize_defs)

section \<open>Parameter validation comes first\<close>

text \<open>
  Claim C3: when slug and uuid are both non-empty or both empty, validation fails with the
  identifier error (worded by the origin of the parameters), and it is the answer of the
  first rule, whatever the other fields hold.
\<close>

theorem validate_needs_slug_xor_uuid_first:
  assumes "(slug d \<noteq> [] \<and> uuid d \<noteq> []) \<or> (slug d = [] \<and> uuid d = [])"
  shows "downloadParams_validate d
           = Some (if fromFlags d then NeedExerciseOrUUIDFlag else NeedSlugOrUUID)
         \<and> downloadParams_validate d = needsSlugXorUUID d"
  using assms by (auto simp: downloadParams_validate_def needsSlugXorUUID_def)

text \<open>
  Two parameter sets that break the later rules as well (no token; a track and a team
  without a slug): the identifier error is the one reported.
\<close>

theorem validate_needs_slug_xor_uuid_first_witness:
  "downloadParams_validate
      \<lparr>slug = [], uuid = [], token = [], apibaseurl = [], workspace = [],
       track = ''go'', team = ''acme'', fromExercise = False, fromFlags = True\<rparr>
     = Some NeedExerciseOrUUIDFlag
   \<and> downloadParams_validate
      (exampleParams\<lparr>uuid := ''bogus-id'', token := [], fromFlags := False\<rparr>)
     = Some NeedSlugOrUUID"
  using validate_needs_slug_xor_uuid_first
          [of "\<lparr>slug = [], uuid = [], token = [], apibaseurl = [], workspace = [],
                track = ''go'', team = ''acme'', fromExercise = False, fromFlags = True\<rparr>"]
        validate_needs_slug_xor_uuid_first
          [of "exampleParams\<lparr>uuid := ''bogus-id'', token := [], fromFlags := False\<rparr>"]
  by (simp add: exampleParams_def)

text \<open>
  Claim C9: when the validation of the parameters fails, \<^verbatim>\<open>newDownload\<close> returns that
  error and the history of calls is the one it started from: no client was created and
  no request was sent.
\<close>

theorem newDownload_validates_before_network:
  assumes "downloadParams_validate p = Some err"
  shows "newDownload env p tr = ((None, Some err), tr)"
  using assms by (simp add: newDownload_def)

theorem newDownload_validates_before_network_witness:
  "downloadParams_validate (exampleParams\<lparr>token := []\<rparr>) = Some (MissingUserConfig ''token'')
   \<and> newDownload (exampleEnv notFound (\<lambda>body. Inr None)) (exampleParams\<lparr>token := []\<rparr>) []
       = ((None, Some (MissingUserConfig ''token'')), [])"
proof -
  have v: "downloadParams_validate (exampleParams\<lparr>token := []\<rparr>)
             = Some (MissingUserConfig ''token'')"
    by (simp add: downloadParams_validate_def needsSlugXorUUID_def needsUserConfigValues_def
        exampleParams_def)
  show ?thesis
    using v newDownload_validates_before_network [OF v] by simp
qed

section \<open>The request of the solution lookup\<close>

lemma Add_apply: "Add k v q key = (if key = k then q k @ [v] else q key)"
  by (simp add: Add_def)

lemma buildQuery_apply:
  "buildQuery p query key =
     query key @
       (if slug p = [] then []
        else if key = ''exercise_id'' then [slug p]
        else if key = ''track_id'' \<and> track p \<noteq> [] then [track p]
        else if key = ''team_id'' \<and> team p \<noteq> [] then [team p]
        else [])"
  by (simp add: buildQuery_def Let_def Add_apply)

lemma getDownloadPayload_query_apply:
  "getDownloadPayload_query fp query key =
     query key @
       (if flat_uuid fp \<noteq> [] then []
        else if key = ''exercise_id'' then [flat_slug fp]
        else if key = ''track_id'' \<and> flat_track fp \<noteq> [] then [flat_track fp]
        else if key = ''team_id'' \<and> flat_team fp \<noteq> [] then [flat_team fp]
        else [])"
  by (simp add: getDownloadPayload_query_def Let_def Add_apply)

text \<open>
  Claim C4, as stated, fails on \<^verbatim>\<open>getDownloadPayload\<close>: with slug and uuid both empty the
  request carries \<^verbatim>\<open>exercise_id\<close> (and \<^verbatim>\<open>track_id\<close>) although the slug is empty, and with
  the URL parameter left empty the path ends in \<^verbatim>\<open>/solutions/\<close>, not in
  \<^verbatim>\<open>/solutions/latest\<close>.
\<close>

theorem flat_request_counterexample:
  "flat_uuid (exampleFlatParams\<lparr>flat_slug := []\<rparr>) = []
   \<and> flat_slug (exampleFlatParams\<lparr>flat_slug := []\<rparr>) = []
   \<and> getDownloadPayload_query (exampleFlatParams\<lparr>flat_slug := []\<rparr>) noValues ''exercise_id'' = [[]]
   \<and> getDownloadPayload_query (exampleFlatParams\<lparr>flat_slug := []\<rparr>) noValues ''track_id'' = [''go'']
   \<and> getDownloadPayload_url (exampleFlatParams\<lparr>flat_slug := []\<rparr>)
       = ''https://api.exercism.io/v1/solutions/''
   \<and> getDownloadPayload_url (exampleFlatParams\<lparr>flat_slug := []\<rparr>)
       \<noteq> cfg_apibaseurl (flat_cfg (exampleFlatParams\<lparr>flat_slug := []\<rparr>)) @ ''/solutions/latest''"
  by (simp add: exampleFlatParams_def getDownloadPayload_query_apply getDownloadPayload_url_def
      noValues_def)

text \<open>
  Claim C4, amended. In \<^verbatim>\<open>requestURL\<close> and \<^verbatim>\<open>buildQuery\<close> the path is
  \<^verbatim>\<open>{apibaseurl}/solutions/latest\<close> when the uuid is empty and
  \<^verbatim>\<open>{apibaseurl}/solutions/{uuid}\<close> otherwise, and for every parameter value the request
  carries added query parameters if and only if the slug is non-empty: \<^verbatim>\<open>exercise_id\<close>,
  and \<^verbatim>\<open>track_id\<close> and \<^verbatim>\<open>team_id\<close> when they are set, each appended to what the URL had.
  In \<^verbatim>\<open>getDownloadPayload\<close> the path is \<^verbatim>\<open>{apibaseurl}/solutions/{urlParam}\<close> with the
  parameter the caller supplies, and the same parameters are carried if and only if the
  uuid is empty, which is if and only if the slug is non-empty when exactly one of the
  two is set.
\<close>

theorem request_target_and_query:
  "requestURL p = apibaseurl p @ ''/solutions/'' @ (if uuid p = [] then ''latest'' else uuid p)
   \<and> ((\<exists>key. buildQuery p noValues key \<noteq> []) = (slug p \<noteq> []))
   \<and> buildQuery p query key =
       query key @
         (if slug p = [] then []
          else if key = ''exercise_id'' then [slug p]
          else if key = ''track_id'' \<and> track p \<noteq> [] then [track p]
          else if key = ''team_id'' \<and> team p \<noteq> [] then [team p]
          else [])
   \<and> getDownloadPayload_url fp = cfg_apibaseurl (flat_cfg fp) @ ''/solutions/'' @ flat_urlParam fp
   \<and> ((\<exists>key. getDownloadPayload_query fp noValues key \<noteq> []) = (flat_uuid fp = []))
   \<and> getDownloadPayload_query fp query key =
       query key @
         (if flat_uuid fp \<noteq> [] then []
          else if key = ''exercise_id'' then [flat_slug fp]
          else if key = ''track_id'' \<and> flat_track fp \<noteq> [] then [flat_track fp]
          else if key = ''team_id'' \<and> flat_team fp \<noteq> [] then [flat_team fp]
          else [])
   \<and> ((flat_slug fp = []) \<noteq> (flat_uuid fp = []) \<longrightarrow>
        (\<exists>key. getDownloadPayload_query fp noValues key \<noteq> []) = (flat_slug fp \<noteq> []))"
proof -
  have a: "(\<exists>key. buildQuery p noValues key \<noteq> []) = (slug p \<noteq> [])"
    by (auto simp: buildQuery_apply noValues_def split: if_splits)
  have b: "(\<exists>key. getDownloadPayload_query fp noValues key \<noteq> []) = (flat_uuid fp = [])"
    by (auto simp: getDownloadPayload_query_apply noValues_def split: if_splits)
  have c: "requestURL p = apibaseurl p @ ''/solutions/'' @ (if uuid p = [] then ''latest'' else uuid p)"
    by (simp add: requestURL_def)
  have d: "getDownloadPayload_url fp = cfg_apibaseurl (flat_cfg fp) @ ''/solutions/'' @ flat_urlParam fp"
    by (simp add: getDownloadPayload_url_def)
  have e: "(flat_slug fp = []) \<noteq> (flat_uuid fp = []) \<longrightarrow>
        (\<exists>key. getDownloadPayload_query fp noValues key \<noteq> []) = (flat_slug fp \<noteq> [])"
    unfolding b by auto
  show ?thesis
    using a b c d e buildQuery_apply[of p query key] getDownloadPayload_query_apply[of fp query key]
    by blast
qed

theorem request_target_and_query_witness:
  "(flat_slug exampleFlatParams = []) \<noteq> (flat_uuid exampleFlatParams = [])
   \<and> flat_slug exampleFlatParams \<noteq> []
   \<and> (\<exists>key. getDownloadPayload_query exampleFlatParams noValues key \<noteq> [])
   \<and> requestURL exampleParams = ''https://api.exercism.io/v1/solutions/latest''
   \<and> requestURL (exampleParams\<lparr>slug := [], uuid := ''bogus-id'', track := []\<rparr>)
       = ''https://api.exercism.io/v1/solutions/bogus-id''
   \<and> buildQuery exampleParams noValues ''exercise_id'' = [''bob'']
   \<and> buildQuery exampleParams noValues ''track_id'' = [''go'']
   \<and> buildQuery exampleParams noValues ''team_id'' = []
   \<and> buildQuery (exampleParams\<lparr>slug := [], uuid := ''bogus-id'', track := []\<rparr>) noValues ''exercise_id'' = []"
proof -
  have x: "(flat_slug exampleFlatParams = []) \<noteq> (flat_uuid exampleFlatParams = [])"
    and s: "flat_slug exampleFlatParams \<noteq> []"
    by (simp_all add: exampleFlatParams_def)
  note t1 = request_target_and_query [of exampleParams noValues "''exercise_id''" exampleFlatParams]
  note t2 = request_target_and_query [of exampleParams noValues "''track_id''" exampleFlatParams]
  note t3 = request_target_and_query [of exampleParams noValues "''team_id''" exampleFlatParams]
  note t4 = request_target_and_query
              [of "exampleParams\<lparr>slug := [], uuid := ''bogus-id'', track := []\<rparr>" noValues
                  "''exercise_id''" exampleFlatParams]
  have e: "\<exists>key. getDownloadPayload_query exampleFlatParams noValues key \<noteq> []"
    using t1 x s by blast
  show ?thesis
    using x s e t1 t2 t3 t4 by (simp add: exampleParams_def noValues_def)
qed

section \<open>The two pipelines\<close>

text \<open>
  Claim C2, as stated, fails: the flat pipeline takes the last segment of the URL from
  its parameter \<^verbatim>\<open>urlParam\<close>, which the invariant on slug and uuid says nothing about.
  With the slug set, the uuid empty and the parameter left empty, the two URLs differ.
\<close>

theorem flat_url_counterexample:
  "(slug exampleParams = []) \<noteq> (uuid exampleParams = [])
   \<and> flat_uuid exampleFlatParams = uuid exampleParams
   \<and> flat_slug exampleFlatParams = slug exampleParams
   \<and> flat_track exampleFlatParams = track exampleParams
   \<and> flat_team exampleFlatParams = team exampleParams
   \<and> cfg_apibaseurl (flat_cfg exampleFlatParams) = apibaseurl exampleParams
   \<and> requestURL exampleParams = ''https://api.exercism.io/v1/solutions/latest''
   \<and> getDownloadPayload_url exampleFlatParams = ''https://api.exercism.io/v1/solutions/''
   \<and> getDownloadPayload_url exampleFlatParams \<noteq> requestURL exampleParams"
  by (simp add: exampleParams_def exampleFlatParams_def requestURL_def getDownloadPayload_url_def)

text \<open>
  Claim C2, amended: for parameters with exactly one of slug and uuid non-empty, and flat
  parameters that carry the same uuid, slug, track, team and API base URL and whose
  \<^verbatim>\<open>urlParam\<close> is the uuid when it is non-empty and \<^verbatim>\<open>latest\<close> otherwise, the two
  pipelines build the same request URL and the same query parameters.
\<close>

theorem pipelines_build_same_request:
  assumes inv: "(slug p = []) \<noteq> (uuid p = [])"
    and flds: "flat_uuid fp = uuid p" "flat_slug fp = slug p" "flat_track fp = track p"
              "flat_team fp = team p" "cfg_apibaseurl (flat_cfg fp) = apibaseurl p"
    and urlp: "flat_urlParam fp = (if uuid p = [] then ''latest'' else uuid p)"
  shows "getDownloadPayload_url fp = requestURL p
       \<and> getDownloadPayload_query fp query = buildQuery p query"
  using inv
  by (auto simp: getDownloadPayload_url_def requestURL_def getDownloadPayload_query_def
      buildQuery_def flds urlp Let_def)

theorem pipelines_build_same_request_witness:
  "getDownloadPayload_url (exampleFlatParams\<lparr>flat_urlParam := ''latest''\<rparr>)
     = requestURL exampleParams
   \<and> getDownloadPayload_query (exampleFlatParams\<lparr>flat_urlParam := ''latest''\<rparr>) noValues
     = buildQuery exampleParams noValues"
proof -
  let ?fp = "exampleFlatParams\<lparr>flat_urlParam := ''latest''\<rparr>"
  have inv: "(slug exampleParams = []) \<noteq> (uuid exampleParams = [])"
    by (simp add: exampleParams_def)
  have flds: "flat_uuid ?fp = uuid exampleParams" "flat_slug ?fp = slug exampleParams"
    "flat_track ?fp = track exampleParams" "flat_team ?fp = team exampleParams"
    "cfg_apibaseurl (flat_cfg ?fp) = apibaseurl exampleParams"
    by (simp_all add: exampleParams_def exampleFlatParams_def)
  have urlp: "flat_urlParam ?fp = (if uuid exampleParams = [] then ''latest'' else uuid exampleParams)"
    by (simp add: exampleParams_def)
  show ?thesis
    by (rule pipelines_build_same_request [OF inv flds urlp])
qed

text \<open>
  For parameters that pass the validation, and the same token, the two pipelines then
  make the same calls: the same client construction and the same request.
\<close>

lemma pipelines_make_same_calls:
  assumes valid: "downloadParams_validate p = None"
    and flds: "flat_uuid fp = uuid p" "flat_slug fp = slug p" "flat_track fp = track p"
              "flat_team fp = team p" "cfg_apibaseurl (flat_cfg fp) = apibaseurl p"
              "cfg_token (flat_cfg fp) = token p"
    and urlp: "flat_urlParam fp = (if uuid p = [] then ''latest'' else uuid p)"
  shows "snd (getDownloadPayload env fp tr) = snd (newDownload env p tr)"
proof -
  have inv: "(slug p = []) \<noteq> (uuid p = [])"
    using valid
    by (auto simp: downloadParams_validate_def needsSlugXorUUID_def split: option.splits if_splits)
  have u: "getDownloadPayload_url fp = requestURL p"
    and q: "\<And>query. getDownloadPayload_query fp query = buildQuery p query"
    using inv
    by (auto simp: getDownloadPayload_url_def requestURL_def getDownloadPayload_query_def
      buildQuery_def flds urlp Let_def)
  show ?thesis
    by (simp add: getDownloadPayload_def newDownload_def valid u q flds Let_def
        split: prod.splits option.splits sum.splits)
qed

section \<open>Validating the payload\<close>

text \<open>
  \<^verbatim>\<open>newDownload\<close> ends with \<^verbatim>\<open>(d *download) validate\<close>: at status 200 its error is
  nil exactly when the solution has an id and the payload carries no error message.
  \<^verbatim>\<open>getDownloadPayload\<close> returns whatever was decoded, without an error.
\<close>

lemma download_validate_iff:
  "(download_validate d = None)
     = (Solution_ID (Solution (payload d)) \<noteq> [] \<and> Error_Message (Error (payload d)) = [])"
  by (simp add: download_validate_def)

lemma newDownload_status_ok:
  assumes "downloadParams_validate p = None"
    and "NewClient env (token p) (apibaseurl p) = (client, None)"
    and "NewRequest env client (requestURL p) = Inr query"
    and "Do env (tr @ [CallNewClient (token p) (apibaseurl p)]) client
           \<lparr>req_url = requestURL p, req_query = buildQuery p query\<rparr> = Inr res"
    and "Decode env (Body res) = Inr (Some pl)"
    and "StatusCode res = 200"
  shows "fst (newDownload env p tr)
           = (Some \<lparr>params = p, payload = pl\<rparr>, download_validate \<lparr>params = p, payload = pl\<rparr>)"
  using assms by (simp add: newDownload_def Let_def)

lemma getDownloadPayload_status_ok:
  assumes "NewClient env (cfg_token (flat_cfg fp)) (cfg_apibaseurl (flat_cfg fp)) = (client, None)"
    and "NewRequest env client (getDownloadPayload_url fp) = Inr query"
    and "Do env (tr @ [CallNewClient (cfg_token (flat_cfg fp)) (cfg_apibaseurl (flat_cfg fp))]) client
           \<lparr>req_url = getDownloadPayload_url fp, req_query = getDownloadPayload_query fp query\<rparr>
         = Inr res"
    and "Decode env (Body res) = Inr decoded"
    and "StatusCode res = 200"
  shows "fst (getDownloadPayload env fp tr) = (decoded, None)"
  using assms by (simp add: getDownloadPayload_def Let_def)

text \<open>
  Claim C6 on the flat pipeline: a response with status 200 whose body is an empty JSON
  object decodes to a payload without a solution id. \<^verbatim>\<open>getDownloadPayload\<close> returns it
  without an error, and \<^verbatim>\<open>writeMetadataFromPayload\<close> and
  \<^verbatim>\<open>writeSolutionFilesFromPayload\<close> accept it; \<^verbatim>\<open>newDownload\<close> rejects the same
  response with the missing-id error.
\<close>

theorem flat_pipeline_accepts_missing_id:
  "fst (getDownloadPayload (exampleEnv emptyObject (\<lambda>body. Inr (Some emptyPayload)))
          (exampleFlatParams\<lparr>flat_urlParam := ''latest''\<rparr>) [])
     = (Some emptyPayload, None)
   \<and> fst (writeMetadataFromPayload (exampleEnv emptyObject (\<lambda>body. Inr (Some emptyPayload)))
          (Some emptyPayload) (flat_cfg exampleFlatParams) Map.empty)
     = None
   \<and> fst (writeSolutionFilesFromPayload (exampleEnv emptyObject (\<lambda>body. Inr (Some emptyPayload)))
          (Some emptyPayload) (flat_cfg exampleFlatParams) [] Map.empty)
     = None
   \<and> fst (newDownload (exampleEnv emptyObject (\<lambda>body. Inr (Some emptyPayload))) exampleParams [])
     = (Some \<lparr>params = exampleParams, payload = emptyPayload\<rparr>, Some DownloadMissingID)"
  by (simp add: getDownloadPayload_def writeMetadataFromPayload_def
      writeSolutionFilesFromPayload_def newDownload_def download_validate_def
      downloadParams_validate_def needsSlugXorUUID_def needsUserConfigValues_def
      needsSlugWhenGivenTrackOrTeam_def
      getDownloadPayload_url_def getDownloadPayload_query_def requestURL_def buildQuery_def
      exampleEnv_def emptyObject_def emptyPayload_def exampleFlatParams_def exampleParams_def
      Let_def)

section \<open>The destination root\<close>












text \<open>For every input, the root is built by at most two joins.\<close>

lemma solutionRoot_joins:
  "solutionRoot env d =
     (if Team_Slug (Solution_Team (Solution (payload d))) = [] then
        (if User_IsRequester (Solution_User (Solution (payload d))) then workspace (params d)
         else filepath_Join env
                [workspace (params d), ''users'', User_Handle (Solution_User (Solution (payload d)))])
      else
        (if User_IsRequester (Solution_User (Solution (payload d))) then
           filepath_Join env
             [workspace (params d), ''teams'', Team_Slug (Solution_Team (Solution (payload d)))]
         else filepath_Join env
                [filepath_Join env
                   [workspace (params d), ''teams'', Team_Slug (Solution_Team (Solution (payload d)))],
                 ''users'', User_Handle (Solution_User (Solution (payload d)))]))"
  by (simp add: solutionRoot_def isTeamSolution_def solutionBelongsToOtherUser_def)




section \<open>The file writer\<close>

text \<open>
  Claim C7: for parameters that come from a local exercise, \<^verbatim>\<open>writeSolutionFiles\<close>
  returns an error and leaves the file system and the history of calls as they were,
  whatever the list of files is.
\<close>

theorem writeSolutionFiles_refuses_local_exercise:
  assumes "fromExercise (params d)"
  shows "writeSolutionFiles env d tr fs = (Some ExistingFilesNotOverwritten, tr, fs)"
  using assms by (simp add: writeSolutionFiles_def)

theorem writeSolutionFiles_refuses_local_exercise_witness:
  "fromExercise
     (params \<lparr>params = exampleParams\<lparr>fromExercise := True\<rparr>, payload = examplePayload\<rparr>)
   \<and> writeSolutionFiles (exampleEnv emptyFile (\<lambda>body. Inr None))
        \<lparr>params = exampleParams\<lparr>fromExercise := True\<rparr>, payload = examplePayload\<rparr> [] Map.empty
      = (Some ExistingFilesNotOverwritten, [], Map.empty)"
proof -
  have h: "fromExercise
             (params \<lparr>params = exampleParams\<lparr>fromExercise := True\<rparr>, payload = examplePayload\<rparr>)"
    by simp
  show ?thesis
    using h writeSolutionFiles_refuses_local_exercise [OF h] by simp
qed

text \<open>
  Claim C8: when the response for a file has a status other than 200, or a
  \<^verbatim>\<open>Content-Length\<close> header equal to \<^verbatim>\<open>0\<close>, the body of the loop returns no error and
  leaves the file system as it was, and the loop goes on with the remaining files. This
  holds for the loop of \<^verbatim>\<open>writeSolutionFiles\<close> and for the loop of
  \<^verbatim>\<open>writeSolutionFilesFromPayload\<close>.
\<close>

theorem skipped_file_response_writes_nothing:
  assumes parse: "ParseRequestURI env (FileDownloadBaseURL (Solution (payload d)) @ filename) = Inr u"
    and client: "client = fst (NewClient env (token (params d)) (apibaseurl (params d)))"
    and tr1: "tr1 = tr @ [CallNewClient (token (params d)) (apibaseurl (params d))]"
    and req: "NewRequest env client u = Inr query"
    and res: "Do env tr1 client \<lparr>req_url = u, req_query = query\<rparr> = Inr res"
    and skip: "StatusCode res \<noteq> 200 \<or> Header_ContentLength res = ''0''"
    and tr2: "tr2 = tr1 @ [CallDo \<lparr>req_url = u, req_query = query\<rparr>]"
    and cfg: "cfg_token usrCfg = token (params d)" "cfg_apibaseurl usrCfg = apibaseurl (params d)"
  shows "writeSolutionFiles_body env d filename tr fs = (None, tr2, fs)
       \<and> writeSolutionFiles_loop env d (filename # rest) tr fs
           = writeSolutionFiles_loop env d rest tr2 fs
       \<and> writeSolutionFilesFromPayload_body env usrCfg (payload d) ex filename tr fs = (None, tr2, fs)
       \<and> writeSolutionFilesFromPayload_loop env usrCfg (payload d) ex (filename # rest) tr fs
           = writeSolutionFilesFromPayload_loop env usrCfg (payload d) ex rest tr2 fs"
proof -
  obtain c cerr where nc: "NewClient env (token (params d)) (apibaseurl (params d)) = (c, cerr)"
    by (cases "NewClient env (token (params d)) (apibaseurl (params d))")
  have c: "client = c" using client nc by simp
  have rf: "requestFile env d filename tr = ((None, None), tr2)"
    using parse req res skip nc
    by (auto simp: requestFile_def Let_def c tr1 tr2)
  have b: "writeSolutionFiles_body env d filename tr fs = (None, tr2, fs)"
    by (simp add: writeSolutionFiles_body_def rf)
  have fb: "writeSolutionFilesFromPayload_body env usrCfg (payload d) ex filename tr fs = (None, tr2, fs)"
    using parse req res skip nc
    by (auto simp: writeSolutionFilesFromPayload_body_def Let_def c tr1 tr2 cfg)
  show ?thesis
    by (simp add: b fb)
qed

text \<open>A file the server answers with status 404.\<close>

theorem skipped_file_response_writes_nothing_witness:
  "StatusCode \<lparr>StatusCode = 404, Header_ContentLength = ''9'', Body = ''not found''\<rparr> \<noteq> 200
   \<and> writeSolutionFiles_loop (exampleEnv notFound (\<lambda>body. Inr None))
        \<lparr>params = exampleParams, payload = examplePayload\<rparr> [''bob.go'', ''bob_test.go''] [] Map.empty
     = writeSolutionFiles_loop (exampleEnv notFound (\<lambda>body. Inr None))
        \<lparr>params = exampleParams, payload = examplePayload\<rparr> [''bob_test.go'']
        [CallNewClient ''abc123'' ''https://api.exercism.io/v1'',
         CallDo \<lparr>req_url = ''https://api.exercism.io/v1/solutions/bogus-id/files/bob.go'',
                req_query = noValues\<rparr>]
        Map.empty"
proof -
  let ?env = "exampleEnv notFound (\<lambda>body. Inr None) :: (unit, string \<rightharpoonup> string) env"
  let ?d = "\<lparr>params = exampleParams, payload = examplePayload\<rparr>"
  let ?u = "''https://api.exercism.io/v1/solutions/bogus-id/files/bob.go''"
  let ?res = "\<lparr>StatusCode = 404, Header_ContentLength = ''9'', Body = ''not found''\<rparr>"
  let ?tr1 = "[CallNewClient ''abc123'' ''https://api.exercism.io/v1'']"
  let ?c = "\<lparr>cfg_token = ''abc123'', cfg_apibaseurl = ''https://api.exercism.io/v1'',
             cfg_workspace = ''/home/alice/exercism''\<rparr>"
  have parse: "ParseRequestURI ?env (FileDownloadBaseURL (Solution (payload ?d)) @ ''bob.go'') = Inr ?u"
    by (simp add: exampleEnv_def examplePayload_def)
  have client: "() = fst (NewClient ?env (token (params ?d)) (apibaseurl (params ?d)))"
    by simp
  have tr1: "?tr1 = [] @ [CallNewClient (token (params ?d)) (apibaseurl (params ?d))]"
    by (simp add: exampleParams_def)
  have req: "NewRequest ?env () ?u = Inr noValues"
    by (simp add: exampleEnv_def)
  have res: "Do ?env ?tr1 () \<lparr>req_url = ?u, req_query = noValues\<rparr> = Inr ?res"
    by (simp add: exampleEnv_def notFound_def)
  have skip: "StatusCode ?res \<noteq> 200 \<or> Header_ContentLength ?res = ''0''"
    by simp
  have tr2: "?tr1 @ [CallDo \<lparr>req_url = ?u, req_query = noValues\<rparr>]
               = ?tr1 @ [CallDo \<lparr>req_url = ?u, req_query = noValues\<rparr>]"
    by simp
  have cfg: "cfg_token ?c = token (params ?d)" "cfg_apibaseurl ?c = apibaseurl (params ?d)"
    by (simp_all add: exampleParams_def)
  show ?thesis
    using skipped_file_response_writes_nothing
            [OF parse client tr1 req res skip tr2 cfg,
              where rest = "[''bob_test.go'']" and fs = Map.empty
                and ex = "\<lparr>Root = ''/home/alice/exercism'', Track = ''go'', Slug = ''bob''\<rparr>"]
    by simp
qed

text \<open>
  A whole batch against a server that knows no file, and against one that answers every
  request with an empty file: four calls, no error, no file.
\<close>

lemma writeSolutionFiles_all_skipped_example:
  "writeSolutionFiles (exampleEnv notFound (\<lambda>body. Inr None))
      \<lparr>params = exampleParams, payload = examplePayload\<rparr> [] Map.empty
     = (None,
        [CallNewClient ''abc123'' ''https://api.exercism.io/v1'',
         CallDo \<lparr>req_url = ''https://api.exercism.io/v1/solutions/bogus-id/files/bob.go'',
                req_query = noValues\<rparr>,
         CallNewClient ''abc123'' ''https://api.exercism.io/v1'',
         CallDo \<lparr>req_url = ''https://api.exercism.io/v1/solutions/bogus-id/files/bob_test.go'',
                req_query = noValues\<rparr>],
        Map.empty)
   \<and> writeSolutionFiles (exampleEnv emptyFile (\<lambda>body. Inr None))
      \<lparr>params = exampleParams, payload = examplePayload\<rparr> [] Map.empty
     = (None,
        [CallNewClient ''abc123'' ''https://api.exercism.io/v1'',
         CallDo \<lparr>req_url = ''https://api.exercism.io/v1/solutions/bogus-id/files/bob.go'',
                req_query = noValues\<rparr>,
         CallNewClient ''abc123'' ''https://api.exercism.io/v1'',
         CallDo \<lparr>req_url = ''https://api.exercism.io/v1/solutions/bogus-id/files/bob_test.go'',
                req_query = noValues\<rparr>],
        Map.empty)"
  by (simp add: writeSolutionFiles_def writeSolutionFiles_body_def requestFile_def
      exampleEnv_def exampleParams_def examplePayload_def notFound_def emptyFile_def)

text \<open>
  Claim C10: in \<^verbatim>\<open>requestFile\<close> the error of \<^verbatim>\<open>api.NewClient\<close> is discarded. When the
  construction of the client fails, and the URL parses and the request can be built, the
  request is built with the client that came with the error and sent: the history gains
  the call of \<^verbatim>\<open>Do\<close> with that request, and what is returned is the answer of
  \<^verbatim>\<open>Do\<close> (its error, a skip, or its response), never the error of the construction.
  The loop body of the flat pipeline sends the same request. In both, replacing the error
  of the construction by any other, or by none, changes nothing.
\<close>

theorem requestFile_proceeds_after_failed_client:
  assumes parse: "ParseRequestURI env (FileDownloadBaseURL (Solution (payload d)) @ filename) = Inr u"
    and failed: "NewClient env (token (params d)) (apibaseurl (params d)) = (client, Some e)"
    and req: "NewRequest env client u = Inr query"
    and tr1: "tr1 = tr @ [CallNewClient (token (params d)) (apibaseurl (params d))]"
    and rq: "rq = \<lparr>req_url = u, req_query = query\<rparr>"
    and cfg: "cfg_token usrCfg = token (params d)" "cfg_apibaseurl usrCfg = apibaseurl (params d)"
  shows "requestFile env d filename tr =
           ((case Do env tr1 client rq of
               Inl e' \<Rightarrow> (None, Some (External e'))
             | Inr res \<Rightarrow>
                 if StatusCode res \<noteq> 200 \<or> Header_ContentLength res = ''0'' then (None, None)
                 else (Some res, None)),
            tr1 @ [CallDo rq])
       \<and> fst (snd (writeSolutionFilesFromPayload_body env usrCfg (payload d) ex filename tr fs))
           = tr1 @ [CallDo rq]
       \<and> requestFile (env\<lparr>NewClient := \<lambda>tok url. (fst (NewClient env tok url), cerr tok url)\<rparr>)
             d filename tr
           = requestFile env d filename tr
       \<and> writeSolutionFilesFromPayload_body
             (env\<lparr>NewClient := \<lambda>tok url. (fst (NewClient env tok url), cerr tok url)\<rparr>)
             usrCfg (payload d) ex filename tr fs
           = writeSolutionFilesFromPayload_body env usrCfg (payload d) ex filename tr fs"
proof -
  have a: "requestFile env d filename tr =
           ((case Do env tr1 client rq of
               Inl e' \<Rightarrow> (None, Some (External e'))
             | Inr res \<Rightarrow>
                 if StatusCode res \<noteq> 200 \<or> Header_ContentLength res = ''0'' then (None, None)
                 else (Some res, None)),
            tr1 @ [CallDo rq])"
    using parse failed req
    by (simp add: requestFile_def Let_def tr1 rq split: sum.splits)
  have b: "fst (snd (writeSolutionFilesFromPayload_body env usrCfg (payload d) ex filename tr fs))
           = tr1 @ [CallDo rq]"
    using parse failed req
    by (simp add: writeSolutionFilesFromPayload_body_def Let_def tr1 rq cfg
        split: sum.splits prod.splits option.splits)
  have c: "requestFile (env\<lparr>NewClient := \<lambda>tok url. (fst (NewClient env tok url), cerr tok url)\<rparr>)
             d filename tr
           = requestFile env d filename tr"
    by (simp add: requestFile_def split_beta Let_def cong: sum.case_cong if_cong)
  have d: "writeSolutionFilesFromPayload_body
             (env\<lparr>NewClient := \<lambda>tok url. (fst (NewClient env tok url), cerr tok url)\<rparr>)
             usrCfg (payload d) ex filename tr fs
           = writeSolutionFilesFromPayload_body env usrCfg (payload d) ex filename tr fs"
    by (simp add: writeSolutionFilesFromPayload_body_def split_beta Let_def
        cong: sum.case_cong option.case_cong if_cong)
  show ?thesis
    using a b c d by blast
qed

text \<open>A host whose client construction always fails: the file is requested and returned.\<close>

theorem requestFile_proceeds_after_failed_client_witness:
  "NewClient ((exampleEnv fileServer (\<lambda>body. Inr None))\<lparr>NewClient := \<lambda>tok url. ((), Some ''no client'')\<rparr>)
       ''abc123'' ''https://api.exercism.io/v1''
     = ((), Some ''no client'')
   \<and> requestFile
       ((exampleEnv fileServer (\<lambda>body. Inr None))\<lparr>NewClient := \<lambda>tok url. ((), Some ''no client'')\<rparr>)
       \<lparr>params = exampleParams, payload = examplePayload\<rparr> ''bob.go'' []
     = ((Some \<lparr>StatusCode = 200, Header_ContentLength = ''11'', Body = ''package bob''\<rparr>, None),
        [CallNewClient ''abc123'' ''https://api.exercism.io/v1'',
         CallDo \<lparr>req_url = ''https://api.exercism.io/v1/solutions/bogus-id/files/bob.go'',
                req_query = noValues\<rparr>])"
proof -
  let ?env = "(exampleEnv fileServer (\<lambda>body. Inr None))\<lparr>NewClient := \<lambda>tok url. ((), Some ''no client'')\<rparr>
                :: (unit, string \<rightharpoonup> string) env"
  let ?d = "\<lparr>params = exampleParams, payload = examplePayload\<rparr>"
  let ?u = "''https://api.exercism.io/v1/solutions/bogus-id/files/bob.go''"
  let ?c = "\<lparr>cfg_token = ''abc123'', cfg_apibaseurl = ''https://api.exercism.io/v1'',
             cfg_workspace = ''/home/alice/exercism''\<rparr>"
  have parse: "ParseRequestURI ?env (FileDownloadBaseURL (Solution (payload ?d)) @ ''bob.go'') = Inr ?u"
    by (simp add: exampleEnv_def examplePayload_def)
  have failed: "NewClient ?env (token (params ?d)) (apibaseurl (params ?d)) = ((), Some ''no client'')"
    by simp
  have req: "NewRequest ?env () ?u = Inr noValues"
    by (simp add: exampleEnv_def)
  have tr1: "[CallNewClient ''abc123'' ''https://api.exercism.io/v1'']
               = [] @ [CallNewClient (token (params ?d)) (apibaseurl (params ?d))]"
    by (simp add: exampleParams_def)
  have rq: "\<lparr>req_url = ?u, req_query = noValues\<rparr> = \<lparr>req_url = ?u, req_query = noValues\<rparr>"
    by simp
  have cfg: "cfg_token ?c = token (params ?d)" "cfg_apibaseurl ?c = apibaseurl (params ?d)"
    by (simp_all add: exampleParams_def)
  have "requestFile ?env ?d ''bob.go'' [] =
          ((case Do ?env [CallNewClient ''abc123'' ''https://api.exercism.io/v1''] ()
                  \<lparr>req_url = ?u, req_query = noValues\<rparr> of
              Inl e' \<Rightarrow> (None, Some (External e'))
            | Inr res \<Rightarrow>
                if StatusCode res \<noteq> 200 \<or> Header_ContentLength res = ''0'' then (None, None)
                else (Some res, None)),
           [CallNewClient ''abc123'' ''https://api.exercism.io/v1'']
             @ [CallDo \<lparr>req_url = ?u, req_query = noValues\<rparr>])"
    using requestFile_proceeds_after_failed_client [OF parse failed req tr1 rq cfg]
    by blast
  then show ?thesis
    by (simp add: exampleEnv_def fileServer_def)
qed

text \<open>\<^verbatim>\<open>newDownload\<close>, in contrast, returns the error of the construction.\<close>

lemma newDownload_surfaces_client_error:
  assumes "downloadParams_validate p = None"
    and "NewClient env (token p) (apibaseurl p) = (client, Some e)"
  shows "fst (newDownload env p tr) = (None, Some (External e))"
  using assms by (simp add: newDownload_def Let_def)

end
